theory Spec2Isabelle
  imports Main "HOL-Library.Sublist"
begin

section \<open>Python values used by the parser\<close>

text \<open>
  A Python \<open>str\<close> is a sequence of code points. The model writes it as a HOL
  \<open>string\<close>, one \<open>char\<close> per code point, which covers the code points
  U+0000 to U+00FF: ASCII and the accented letters of the Portuguese bulletins
  (a with acute accent is \<open>CHR 0xE1\<close>, c with cedilla is \<open>CHR 0xE7\<close>, a with tilde
  is \<open>CHR 0xE3\<close>, u with acute accent is \<open>CHR 0xFA\<close>).
  On this range \<open>len\<close> is \<open>length\<close>, and \<open>str.lower\<close>, \<open>str.strip\<close>,
  \<open>\<^verbatim>\<open>\d\<close>\<close> and \<open>\<^verbatim>\<open>\s\<close>\<close> are the functions below.
\<close>

definition cp :: "char \<Rightarrow> nat" where
  "cp c = of_char c"

text \<open>\<open>str.lower\<close>: A-Z and the capital letters U+00C0..U+00DE (without the
  multiplication sign U+00D7) move up by 32; every other code point below U+0100 stays.\<close>

definition lower_char :: "char \<Rightarrow> char" where
  "lower_char c =
     (if (65 \<le> cp c \<and> cp c \<le> 90) \<or> (192 \<le> cp c \<and> cp c \<le> 222 \<and> cp c \<noteq> 215)
      then char_of (cp c + 32) else c)"

definition py_lower :: "string \<Rightarrow> string" where
  "py_lower s = map lower_char s"

text \<open>\<open>str.isspace\<close> for one code point (also the class \<open>\<^verbatim>\<open>\s\<close>\<close> of \<open>re\<close>).\<close>

definition py_isspace :: "char \<Rightarrow> bool" where
  "py_isspace c =
     ((9 \<le> cp c \<and> cp c \<le> 13) \<or> (28 \<le> cp c \<and> cp c \<le> 32) \<or> cp c = 133 \<or> cp c = 160)"

text \<open>\<open>str.strip()\<close>: whitespace is removed at both ends.\<close>

definition py_strip :: "string \<Rightarrow> string" where
  "py_strip s = rev (dropWhile py_isspace (rev (dropWhile py_isspace s)))"

text \<open>\<open>sep.join(xs)\<close>.\<close>

fun py_join :: "string \<Rightarrow> string list \<Rightarrow> string" where
  "py_join sep [] = []"
| "py_join sep [x] = x"
| "py_join sep (x # y # ys) = x @ sep @ py_join sep (y # ys)"

text \<open>\<open>k in t\<close> for two strings: \<open>k\<close> occurs in \<open>t\<close> as a contiguous block.\<close>

fun py_in :: "string \<Rightarrow> string \<Rightarrow> bool" where
  "py_in k [] = (k = [])"
| "py_in k (c # cs) = (prefix k (c # cs) \<or> py_in k cs)"




fun str_nat :: "nat \<Rightarrow> string" where
  "str_nat n = (if n < 10 then [char_of (48 + n)] else str_nat (n div 10) @ [char_of (48 + n mod 10)])"

declare str_nat.simps [simp del]

definition str_int :: "int \<Rightarrow> string" where
  "str_int i = (if i < 0 then CHR ''-'' # str_nat (nat (- i)) else str_nat (nat i))"


text \<open>
  A cell of a pandas frame, as this program meets it: \<open>None\<close> (an empty cell of the
  extractor), a string, an integer (the page number in column \<open>_pagina\<close>) and NaN (the
  filler of pandas). \<open>py_str\<close> is \<open>str(v)\<close>.
\<close>

datatype cell = CNone | CStr string | CInt int | CNaN

fun py_str :: "cell \<Rightarrow> string" where
  "py_str CNone = ''None''"
| "py_str (CStr s) = s"
| "py_str (CInt i) = str_int i"
| "py_str CNaN = ''nan''"

text \<open>
  A frame has its column labels (\<open>df.columns\<close>) and its rows in order (\<open>df.iloc\<close>).
  \<open>df.shape[1]\<close> and \<open>len(df.columns)\<close> are \<open>ncols\<close>, \<open>len(df)\<close> is the number of rows,
  and \<open>df.empty\<close> holds when one of the two axes has length 0.
\<close>

record dataframe =
  columns :: "cell list"
  rows :: "cell list list"

definition ncols :: "dataframe \<Rightarrow> nat" where
  "ncols df = length (columns df)"

definition df_empty :: "dataframe \<Rightarrow> bool" where
  "df_empty df = (rows df = [] \<or> columns df = [])"

section \<open>find\_cargos\_table: scoring and consolidation\<close>

definition kw_salario :: string where
  "kw_salario = ''sal'' @ [CHR 0xE1] @ ''rio''"

definition kw_remuneracao :: string where
  "kw_remuneracao = ''remunera'' @ [CHR 0xE7, CHR 0xE3] @ ''o''"

definition kw_carga_horaria :: string where
  "kw_carga_horaria = ''carga hor'' @ [CHR 0xE1] @ ''ria''"

definition keyword_list :: "string list" where
  "keyword_list = [''cargo'', ''escolaridade'', ''requisito'', kw_salario, kw_remuneracao,
                   ''vencimento'', ''vagas'', ''chs'', kw_carga_horaria]"

definition columns_text :: "dataframe \<Rightarrow> string" where
  "columns_text df = py_join '' '' (map (\<lambda>col. py_lower (py_str col)) (columns df))"

definition first_row_text :: "dataframe \<Rightarrow> string" where
  "first_row_text df =
     (case rows df of
        [] \<Rightarrow> []
      | r # _ \<Rightarrow> py_join '' '' (map (\<lambda>val. py_lower (py_str val)) r))"

definition combined_text :: "dataframe \<Rightarrow> string" where
  "combined_text df = columns_text df @ '' '' @ first_row_text df"

text \<open>\<open>score = sum(1 for keyword in keywords if keyword in combined_text)\<close>.\<close>

definition score :: "dataframe \<Rightarrow> nat" where
  "score df = length (filter (\<lambda>keyword. py_in keyword (combined_text df)) keyword_list)"

text \<open>The test \<open>if score >= 2\<close> of the loop.\<close>

definition qualifies :: "dataframe \<Rightarrow> bool" where
  "qualifies df = (2 \<le> score df)"

text \<open>
  The loop over \<open>tables\<close>. Its state is the list \<open>cargo_tables\<close> and
  \<open>reference_shape\<close>, which is \<open>None\<close> until the first table passes the score test.
  An empty frame is skipped by \<open>continue\<close> before anything else is looked at.
\<close>

fun scan_tables :: "dataframe list \<Rightarrow> dataframe list \<times> nat option \<Rightarrow> dataframe list \<times> nat option" where
  "scan_tables [] st = st"
| "scan_tables (df # dfs) (cargo_tables, reference_shape) =
     (if df_empty df then scan_tables dfs (cargo_tables, reference_shape)
      else if qualifies df then
        (let reference = (case reference_shape of None \<Rightarrow> ncols df | Some r \<Rightarrow> r)
         in scan_tables dfs
              (if ncols df = reference then cargo_tables @ [df] else cargo_tables, Some reference))
      else scan_tables dfs (cargo_tables, reference_shape))"

definition cargo_tables :: "dataframe list \<Rightarrow> dataframe list" where
  "cargo_tables tables = fst (scan_tables tables ([], None))"

text \<open>
  The result of \<open>find_cargos_table\<close>: \<open>None\<close> when no table was kept, the table itself
  when one was kept, and \<open>pd.concat(cargo_tables, ignore_index=True)\<close> otherwise. The
  concatenation is the library's; it is the parameter \<open>pd_concat\<close>.
\<close>

definition find_cargos_table :: "(dataframe list \<Rightarrow> dataframe) \<Rightarrow> dataframe list \<Rightarrow> dataframe option" where
  "find_cargos_table pd_concat tables =
     (let kept = cargo_tables tables
      in if kept = [] then None
         else if length kept = 1 then Some (hd kept)
         else Some (pd_concat kept))"

text \<open>
  The consolidation as the specification words it: the first table whose score is at
  least 2 gives the signature, and the group is every table with a score of at least 2
  and that column count, in order.
\<close>

definition spec_group :: "dataframe list \<Rightarrow> dataframe list" where
  "spec_group tables =
     (case find qualifies tables of
        None \<Rightarrow> []
      | Some first \<Rightarrow> filter (\<lambda>df. qualifies df \<and> ncols df = ncols first) tables)"

text \<open>A table reaches the group only past the \<open>df.empty\<close> test and the score test.\<close>

definition scored_candidate :: "dataframe \<Rightarrow> bool" where
  "scored_candidate df = (\<not> df_empty df \<and> qualifies df)"

text \<open>
  The text the specification describes for the classifier: the header cells, then the
  cells of the first data row when there is one, joined by spaces, in lower case as one
  string.
\<close>

definition raw_text :: "dataframe \<Rightarrow> string" where
  "raw_text df =
     py_join '' '' (map py_str (columns df)) @ '' '' @
     (case rows df of [] \<Rightarrow> [] | r # _ \<Rightarrow> py_join '' '' (map py_str r))"

section \<open>parse\_cargos: column mapping\<close>

text \<open>
  \<open>col_mapping\<close> is a dict from the five field names to column positions; a field that
  was never assigned is absent.
\<close>

datatype field = Cargo | Requisito | Salario | Carga_horaria | Vagas

type_synonym colmap = "field \<rightharpoonup> nat"

definition kw_funcao :: string where
  "kw_funcao = ''fun'' @ [CHR 0xE7, CHR 0xE3] @ ''o''"

text \<open>The body of the loop over \<open>enumerate(df.columns)\<close>: one \<open>if\<close>/\<open>elif\<close> chain.\<close>

definition assign_column :: "colmap \<Rightarrow> nat \<Rightarrow> cell \<Rightarrow> colmap" where
  "assign_column m idx col =
     (let col_lower = py_lower (py_str col)
      in if py_in ''cargo'' col_lower \<or> py_in kw_funcao col_lower then m(Cargo \<mapsto> idx)
         else if py_in ''escolaridade'' col_lower \<or> py_in ''requisito'' col_lower
           then m(Requisito \<mapsto> idx)
         else if py_in kw_salario col_lower \<or> py_in ''vencimento'' col_lower
                 \<or> py_in kw_remuneracao col_lower \<or> py_in ''valor inicial'' col_lower
           then m(Salario \<mapsto> idx)
         else if py_in ''chs'' col_lower \<or> py_in ''carga'' col_lower
           then m(Carga_horaria \<mapsto> idx)
         else if py_in ''vagas'' col_lower then m(Vagas \<mapsto> idx)
         else m)"

fun map_by_name :: "colmap \<Rightarrow> nat \<Rightarrow> cell list \<Rightarrow> colmap" where
  "map_by_name m idx [] = m"
| "map_by_name m idx (col # cols) = map_by_name (assign_column m idx col) (Suc idx) cols"

definition col_mapping :: "dataframe \<Rightarrow> colmap" where
  "col_mapping df =
     (let num_cols = length (columns df)
      in if 8 \<le> num_cols then
           [Cargo \<mapsto> 0, Requisito \<mapsto> 2, Carga_horaria \<mapsto> 3, Vagas \<mapsto> 4, Salario \<mapsto> 7]
         else if 5 \<le> num_cols then
           [Cargo \<mapsto> 0, Requisito \<mapsto> 1, Carga_horaria \<mapsto> 2, Vagas \<mapsto> 3, Salario \<mapsto> 4]
         else map_by_name Map.empty 0 (columns df))"

text \<open>
  The keyword groups as the specification lists them, in priority order, and the field a
  header belongs to: the first group one of whose keywords occurs in it.
\<close>

definition keyword_groups :: "(field \<times> string list) list" where
  "keyword_groups =
     [(Cargo, [''cargo'', kw_funcao]),
      (Requisito, [''escolaridade'', ''requisito'']),
      (Salario, [kw_salario, ''vencimento'', kw_remuneracao, ''valor inicial'']),
      (Carga_horaria, [''chs'', ''carga'']),
      (Vagas, [''vagas''])]"

definition matches_group :: "field \<Rightarrow> string \<Rightarrow> bool" where
  "matches_group f header =
     (case map_of keyword_groups f of
        None \<Rightarrow> False
      | Some ks \<Rightarrow> list_ex (\<lambda>k. py_in k (py_lower header)) ks)"

definition first_group :: "string \<Rightarrow> field option" where
  "first_group header =
     map_option fst (find (\<lambda>(f, ks). list_ex (\<lambda>k. py_in k (py_lower header)) ks) keyword_groups)"

section \<open>parse\_cargos: rows\<close>

text \<open>
  \<open>row.iloc[k]\<close> reads position \<open>k\<close> and raises IndexError past the end of the row. A
  frame built by pandas has as many cells in every row as it has columns; the model keeps
  rows as lists, so that the handler of the source has a case to handle.
\<close>

definition iloc :: "cell list \<Rightarrow> nat \<Rightarrow> cell option" where
  "iloc row k = (if k < length row then Some (row ! k) else None)"

record cargo_info =
  cidade :: string
  cargo :: string
  requisito :: string
  salario :: string
  carga_horaria :: string
  vagas :: string

text \<open>
  One guarded assignment of the \<open>try\<close> block: the field keeps \<open>''\<close> when it is not in
  the mapping; \<open>None\<close> stands for the exception.
\<close>

definition read_field :: "colmap \<Rightarrow> field \<Rightarrow> cell list \<Rightarrow> string option" where
  "read_field m f row =
     (case m f of
        None \<Rightarrow> Some []
      | Some k \<Rightarrow> (case iloc row k of None \<Rightarrow> None | Some v \<Rightarrow> Some (py_strip (py_str v))))"

definition fill_info :: "colmap \<Rightarrow> string \<Rightarrow> cell list \<Rightarrow> cargo_info option" where
  "fill_info m cid row =
     (case read_field m Cargo row of None \<Rightarrow> None | Some c \<Rightarrow>
     (case read_field m Requisito row of None \<Rightarrow> None | Some r \<Rightarrow>
     (case read_field m Salario row of None \<Rightarrow> None | Some s \<Rightarrow>
     (case read_field m Carga_horaria row of None \<Rightarrow> None | Some h \<Rightarrow>
     (case read_field m Vagas row of None \<Rightarrow> None | Some v \<Rightarrow>
        Some \<lparr>cidade = cid, cargo = c, requisito = r, salario = s,
              carga_horaria = h, vagas = v\<rparr>)))))"

text \<open>\<open>for key in cargo_info: if cargo_info[key] in ['nan', 'None', 'null']: cargo_info[key] = ''\<close>.\<close>

definition clean_value :: "string \<Rightarrow> string" where
  "clean_value v = (if v \<in> set [''nan'', ''None'', ''null''] then [] else v)"

definition clean_info :: "cargo_info \<Rightarrow> cargo_info" where
  "clean_info info =
     \<lparr>cidade = clean_value (cidade info), cargo = clean_value (cargo info),
      requisito = clean_value (requisito info), salario = clean_value (salario info),
      carga_horaria = clean_value (carga_horaria info), vagas = clean_value (vagas info)\<rparr>"

text \<open>The condition under which the row is appended to \<open>cargos\<close>.\<close>

definition keep_info :: "cargo_info \<Rightarrow> bool" where
  "keep_info info =
     (cargo info \<noteq> [] \<and> 3 < length (cargo info) \<and> salario info \<noteq> []
      \<and> salario info \<notin> set [''nan'', ''None'', ''-''])"

text \<open>The calls of the logger in \<open>parse_cargos\<close>, in the order they are made.\<close>

datatype log_level = DEBUG | INFO | WARNING

datatype log_msg =
    DataFrame_shape nat nat
  | Colunas "cell list"
  | Mapeamento
  | Erro_linha nat
  | Cargo_adicionado string
  | Extraidos nat

type_synonym log = "(log_level \<times> log_msg) list"

text \<open>
  The loop over \<open>df.iterrows()\<close>, with the row number \<open>idx\<close>. Its state is the list
  \<open>cargos\<close> and the log. A row whose reading raises is left by \<open>continue\<close> after the
  warning: nothing of it reaches \<open>cargos\<close>.
\<close>

fun parse_rows :: "colmap \<Rightarrow> string \<Rightarrow> nat \<Rightarrow> cell list list \<Rightarrow> cargo_info list \<times> log \<Rightarrow> cargo_info list \<times> log" where
  "parse_rows m cid idx [] st = st"
| "parse_rows m cid idx (row # rest) (cargos, lg) =
     (case fill_info m cid row of
        None \<Rightarrow> parse_rows m cid (Suc idx) rest (cargos, lg @ [(WARNING, Erro_linha idx)])
      | Some filled \<Rightarrow>
          (let info = clean_info filled
           in if keep_info info
              then parse_rows m cid (Suc idx) rest
                     (cargos @ [info], lg @ [(DEBUG, Cargo_adicionado (take 50 (cargo info)))])
              else parse_rows m cid (Suc idx) rest (cargos, lg)))"

text \<open>
  \<open>parse_cargos(df, cidade)\<close>: the list of records and the log. \<open>df\<close> may be \<open>None\<close>.
  The source also computes \<open>primeira_linha_tem_dados\<close> from the first cell and never
  reads it; it is left out.
\<close>

definition parse_cargos :: "dataframe option \<Rightarrow> string \<Rightarrow> cargo_info list \<times> log" where
  "parse_cargos df_opt cid =
     (case df_opt of
        None \<Rightarrow> ([], [])
      | Some df \<Rightarrow>
          if df_empty df then ([], [])
          else
            (let m = col_mapping df;
                 (cargos, lg) =
                   parse_rows m cid 0 (rows df)
                     ([], [(DEBUG, DataFrame_shape (length (rows df)) (ncols df)),
                           (DEBUG, Colunas (columns df)), (DEBUG, Mapeamento)])
             in (cargos, lg @ [(INFO, Extraidos (length cargos))])))"

text \<open>What one row contributes to the records.\<close>

definition row_records :: "colmap \<Rightarrow> string \<Rightarrow> cell list \<Rightarrow> cargo_info list" where
  "row_records m cid row =
     (case fill_info m cid row of
        None \<Rightarrow> []
      | Some filled \<Rightarrow> if keep_info (clean_info filled) then [clean_info filled] else [])"

text \<open>A frame as pandas builds it: every row has one cell per column.\<close>

definition rectangular :: "dataframe \<Rightarrow> bool" where
  "rectangular df = list_all (\<lambda>row. length row = ncols df) (rows df)"

section \<open>parse\_vagas\<close>







section \<open>Example frames\<close>

text \<open>
  Frames as \<open>extract_tables\<close> builds them: the header of the table as labels, the
  column \<open>_pagina\<close> with the page number at the end.
\<close>

definition page1 :: dataframe where
  "page1 = \<lparr>columns = [CStr ''Cargo'', CNone, CStr ''Requisito'', CStr ''CHS'', CStr ''Vagas'',
                        CNone, CNone, CStr ''_pagina''],
            rows = [[CStr ''Agente'', CNone, CStr ''Medio'', CStr ''40h'', CStr ''02'',
                     CNone, CNone, CInt 1]]\<rparr>"

definition page2 :: dataframe where
  "page2 = \<lparr>columns = [CStr ''CARGO'', CNone, CNone, CNone, CStr ''VAGAS'',
                        CNone, CNone, CStr ''_pagina''],
            rows = [[CStr ''Vigia'', CNone, CStr ''Medio'', CStr ''40h'', CStr ''01'',
                     CNone, CNone, CInt 2]]\<rparr>"

definition page3 :: dataframe where
  "page3 = \<lparr>columns = [CStr ''Cargo'', CNone, CStr ''Escolaridade'', CStr ''CHS'', CStr ''Vagas'',
                        CNone, CNone, CStr ''Vencimento'', CStr ''_pagina''],
            rows = [[CStr ''Enfermeiro PSF'', CStr [], CStr ''Superior completo'', CStr ''40h'',
                     CStr ''02+CR'', CStr [], CStr [], CStr ''1.518,00'', CInt 3]]\<rparr>"

text \<open>A table of one row: the header is all there is, and it holds every keyword.\<close>

definition header_only :: dataframe where
  "header_only =
     \<lparr>columns = [CStr ''Cargo'', CStr ''Escolaridade'', CStr ''Requisito'',
                 CStr (''Sal'' @ [CHR 0xE1] @ ''rio''),
                 CStr (''Remunera'' @ [CHR 0xE7, CHR 0xE3] @ ''o''), CStr ''Vencimento'',
                 CStr ''Vagas'', CStr ''CHS'', CStr (''Carga Hor'' @ [CHR 0xE1] @ ''ria''),
                 CStr ''_pagina''],
      rows = []\<rparr>"

text \<open>A narrow table with two salary columns, the second of which also names the role.\<close>

definition two_salaries :: dataframe where
  "two_salaries =
     \<lparr>columns = [CStr (''Sal'' @ [CHR 0xE1] @ ''rio''),
                 CStr (''Sal'' @ [CHR 0xE1] @ ''rio do cargo''), CStr ''_pagina''],
      rows = [[CStr ''1.518,00'', CStr ''Vigia'', CInt 1]]\<rparr>"

definition salary_twice :: dataframe where
  "salary_twice =
     \<lparr>columns = [CStr ''Cargo'', CStr ''Vencimento'',
                 CStr (''Sal'' @ [CHR 0xE1] @ ''rio''), CStr ''_pagina''],
      rows = [[CStr ''Vigia'', CStr ''1.000,00'', CStr ''1.518,00'', CInt 1]]\<rparr>"

text \<open>A table of the middle layout; its last row is shorter than the header.\<close>

definition agente :: string where
  "agente = ''Agente Comunit'' @ [CHR 0xE1] @ ''rio de Sa'' @ [CHR 0xFA] @ ''de''"

definition roles :: dataframe where
  "roles =
     \<lparr>columns = [CStr ''Cargo'', CStr ''Requisito'', CStr ''CHS'', CStr ''Vagas'',
                 CStr ''Vencimento'', CStr ''_pagina''],
      rows = [[CStr agente, CStr ''null'', CStr ''40h'', CStr ''03'', CStr '' 3.036,00 '', CInt 2],
              [CStr ''X'', CStr ''Medio'', CStr ''40h'', CStr ''01'', CStr ''1.518,00'', CInt 2],
              [CStr ''Motorista'', CStr ''Medio'', CStr ''40h'', CStr ''01'', CStr ''-'', CInt 2],
              [CStr ''Vigia'', CStr ''Medio'', CStr ''40h'', CStr ''01'', CStr ''None'', CInt 2],
              [CStr ''Gari'', CStr ''Medio''],
              [CStr ''Enfermeiro PSF'', CNone, CStr ''40h'', CStr ''02+CR'', CStr ''1.518,00'',
               CInt 2]]\<rparr>"

text \<open>A table that is not about roles.\<close>

definition calendar :: dataframe where
  "calendar = \<lparr>columns = [CStr ''Data'', CStr ''Evento'', CStr ''_pagina''],
               rows = [[CStr ''01/02'', CStr ''Prova'', CInt 1]]\<rparr>"

text \<open>
  The field of column \<open>i\<close> by the rule of the specification, the columns that rule gives
  to a field, from left to right, and the rank of a field in the priority order.
\<close>

definition header_field :: "dataframe \<Rightarrow> nat \<Rightarrow> field option" where
  "header_field df i = first_group (py_str (columns df ! i))"

definition assigned_columns :: "field \<Rightarrow> dataframe \<Rightarrow> nat list" where
  "assigned_columns f df = filter (\<lambda>i. header_field df i = Some f) [0..<ncols df]"

fun priority :: "field \<Rightarrow> nat" where
  "priority Cargo = 0"
| "priority Requisito = 1"
| "priority Salario = 2"
| "priority Carga_horaria = 3"
| "priority Vagas = 4"

section \<open>Properties of the consolidation\<close>

lemma scan_tables_Some:
  "scan_tables tables (acc, Some r) =
     (acc @ filter (\<lambda>df. scored_candidate df \<and> ncols df = r) tables, Some r)"
  by (induction tables arbitrary: acc) (simp_all add: scored_candidate_def)

lemma scan_tables_None:
  "scan_tables tables (acc, None) =
     (case find scored_candidate tables of
        None \<Rightarrow> (acc, None)
      | Some first \<Rightarrow>
          (acc @ filter (\<lambda>df. scored_candidate df \<and> ncols df = ncols first) tables,
           Some (ncols first)))"
proof (induction tables arbitrary: acc)
  case Nil
  show ?case by simp
next
  case (Cons df dfs)
  show ?case
  proof (cases "scored_candidate df")
    case True
    then show ?thesis
      by (simp add: scan_tables_Some scored_candidate_def Let_def)
  next
    case False
    then have "scan_tables (df # dfs) (acc, None) = scan_tables dfs (acc, None)"
      by (auto simp: scored_candidate_def)
    with False Cons show ?thesis
      by (auto split: option.splits)
  qed
qed

lemma cargo_tables_filter:
  "cargo_tables tables =
     (case find scored_candidate tables of
        None \<Rightarrow> []
      | Some first \<Rightarrow> filter (\<lambda>df. scored_candidate df \<and> ncols df = ncols first) tables)"
  by (simp add: cargo_tables_def scan_tables_None split: option.splits)


lemma cargo_tables_subset:
  "df \<in> set (cargo_tables tables) \<Longrightarrow> df \<in> set tables \<and> scored_candidate df"
  by (auto simp: cargo_tables_filter split: option.splits)

lemma find_filter_weaker:
  "(\<And>x. Q x \<Longrightarrow> P x) \<Longrightarrow> find Q (filter P xs) = find Q xs"
  by (induction xs) auto

lemma filter_filter_weaker:
  "(\<And>x. Q x \<Longrightarrow> P x) \<Longrightarrow> filter Q (filter P xs) = filter Q xs"
  by (induction xs) auto

lemma py_in_sublist: "py_in k t \<longleftrightarrow> sublist k t"
  by (induction t) (simp_all add: sublist_Cons_right)

lemma py_lower_join:
  "py_lower (py_join sep xs) = py_join (py_lower sep) (map py_lower xs)"
  by (induction sep xs rule: py_join.induct) (simp_all add: py_lower_def)

lemma sublist_map_iff:
  "sublist k (map f t) \<longleftrightarrow> (\<exists>u. sublist u t \<and> map f u = k)"
proof
  assume "sublist k (map f t)"
  then obtain ps ss where "map f t = ps @ k @ ss"
    by (auto simp: sublist_def)
  then have "\<exists>ps' u ss'. t = ps' @ u @ ss' \<and> map f u = k"
    by (metis map_eq_append_conv)
  then obtain ps' u ss' where "t = ps' @ u @ ss'" "map f u = k"
    by blast
  then show "\<exists>u. sublist u t \<and> map f u = k"
    by (auto simp: sublist_def)
next
  assume "\<exists>u. sublist u t \<and> map f u = k"
  then obtain u ps ss where "t = ps @ u @ ss" "map f u = k"
    by (auto simp: sublist_def)
  then have "map f t = map f ps @ k @ map f ss"
    by simp
  then show "sublist k (map f t)"
    unfolding sublist_def by blast
qed

lemma find_cargos_table_None:
  "find_cargos_table pd_concat tables = None \<longleftrightarrow> find scored_candidate tables = None"
proof -
  have "cargo_tables tables = [] \<longleftrightarrow> find scored_candidate tables = None"
  proof (cases "find scored_candidate tables")
    case None
    then show ?thesis by (simp add: cargo_tables_filter)
  next
    case (Some first)
    then have "first \<in> set tables" "scored_candidate first"
      by (auto simp: find_Some_iff)
    then have "first \<in> set (cargo_tables tables)"
      using Some by (simp add: cargo_tables_filter)
    with Some show ?thesis by auto
  qed
  then show ?thesis
    by (simp add: find_cargos_table_def Let_def)
qed


section \<open>The example frames, evaluated\<close>

lemma score_page1: "score page1 = 4"
  by code_simp

lemma score_page2: "score page2 = 2"
  by code_simp

lemma score_page3: "score page3 = 5"
  by code_simp

lemma score_calendar: "score calendar = 0"
  by code_simp

lemma score_header_only: "score header_only = 9"
  by code_simp

lemmas example_scores = score_page1 score_page2 score_page3 score_calendar score_header_only

lemma example_shapes:
  "ncols page1 = 8" "ncols page2 = 8" "ncols page3 = 9" "ncols header_only = 10"
  "\<not> df_empty page1" "\<not> df_empty page2" "\<not> df_empty page3" "\<not> df_empty calendar"
  "df_empty header_only" "rows header_only = []"
  by (simp_all add: ncols_def df_empty_def page1_def page2_def page3_def calendar_def
        header_only_def)

lemma example_candidates:
  "scored_candidate page1" "scored_candidate page2" "scored_candidate page3"
  "\<not> scored_candidate calendar" "\<not> scored_candidate header_only"
  "qualifies page1" "qualifies header_only"
  by (simp_all add: scored_candidate_def qualifies_def example_scores example_shapes)

section \<open>Consolidation: the claims\<close>

text \<open>
  C1 (as amended). The tables are walked in order. The first table that has at least one
  data row and a score of at least 2 fixes the signature, its column count; the group is
  then exactly the tables with a data row, a score of at least 2 and that column count, in
  the order of the pages. A table with a score below 2 is never in the group. Three such
  tables with 8, 8 and 9 columns give the group of the first two.
\<close>

theorem consolidation_by_first_signature:
  "cargo_tables tables =
     (case find scored_candidate tables of
        None \<Rightarrow> []
      | Some first \<Rightarrow> filter (\<lambda>df. scored_candidate df \<and> ncols df = ncols first) tables)
   \<and> (\<forall>df. score df < 2 \<longrightarrow> df \<notin> set (cargo_tables tables))
   \<and> (\<forall>t1 t2 t3. scored_candidate t1 \<and> scored_candidate t2 \<and> scored_candidate t3
         \<and> ncols t1 = 8 \<and> ncols t2 = 8 \<and> ncols t3 = 9
         \<longrightarrow> cargo_tables [t1, t2, t3] = [t1, t2])"
proof (intro conjI allI impI)
  show "cargo_tables tables =
     (case find scored_candidate tables of
        None \<Rightarrow> []
      | Some first \<Rightarrow> filter (\<lambda>df. scored_candidate df \<and> ncols df = ncols first) tables)"
    by (rule cargo_tables_filter)
next
  fix df
  assume "score df < 2"
  then have "\<not> scored_candidate df"
    by (simp add: scored_candidate_def qualifies_def)
  then show "df \<notin> set (cargo_tables tables)"
    using cargo_tables_subset by blast
next
  fix t1 t2 t3
  assume "scored_candidate t1 \<and> scored_candidate t2 \<and> scored_candidate t3
         \<and> ncols t1 = 8 \<and> ncols t2 = 8 \<and> ncols t3 = 9"
  then show "cargo_tables [t1, t2, t3] = [t1, t2]"
    by (simp add: cargo_tables_filter)
qed

theorem consolidation_by_first_signature_witness:
  "score calendar < 2 \<and> calendar \<notin> set (cargo_tables [page1, calendar, page2])
   \<and> scored_candidate page1 \<and> scored_candidate page2 \<and> scored_candidate page3
   \<and> ncols page1 = 8 \<and> ncols page2 = 8 \<and> ncols page3 = 9
   \<and> cargo_tables [page1, page2, page3] = [page1, page2]"
proof -
  have low: "score calendar < 2"
    by (simp add: score_calendar)
  have three: "scored_candidate page1 \<and> scored_candidate page2 \<and> scored_candidate page3
         \<and> ncols page1 = 8 \<and> ncols page2 = 8 \<and> ncols page3 = 9"
    by (simp add: example_candidates example_shapes)
  show ?thesis
    using low three consolidation_by_first_signature [of "[page1, calendar, page2]"]
    by blast
qed

theorem header_only_first_counterexample:
  "qualifies header_only \<and> ncols header_only = 10
   \<and> spec_group [header_only, page1] = [header_only]
   \<and> qualifies page1 \<and> ncols page1 = 8
   \<and> cargo_tables [header_only, page1] = [page1]"
  by (simp add: spec_group_def cargo_tables_filter example_candidates example_shapes)

section \<open>Scoring\<close>

lemma lower_char_space: "lower_char CHR '' '' = CHR '' ''"
  by code_simp

lemma py_lower_space: "py_lower '' '' = '' ''"
  by (simp add: py_lower_def lower_char_space)

lemma distinct_keyword_list: "distinct keyword_list"
  by code_simp

lemma combined_text_lower: "combined_text df = py_lower (raw_text df)"
proof -
  have join: "py_join '' '' (map (\<lambda>c. py_lower (py_str c)) cs) = py_lower (py_join '' '' (map py_str cs))"
    for cs
    by (simp add: py_lower_join py_lower_space comp_def)
  have app: "py_lower (a @ b) = py_lower a @ py_lower b" for a b
    by (simp add: py_lower_def)
  show ?thesis
    by (cases "rows df")
       (simp_all add: combined_text_def columns_text_def first_row_text_def raw_text_def
          join app py_lower_space, simp_all add: py_lower_def lower_char_space)
qed

text \<open>
  C2. The score is the number of words of the nine-word vocabulary that occur in the
  lower-case text built from the header cells and, when there is a data row, the cells of
  the first one; a word occurs there exactly when the text before lowering holds a block
  that is the word up to case. Each word is counted once. The test of the loop holds iff
  that number is at least 2.
\<close>

theorem score_counts_distinct_keywords:
  "score df = card {k \<in> set keyword_list. sublist k (py_lower (raw_text df))}
   \<and> score df = card {k \<in> set keyword_list. \<exists>u. sublist u (raw_text df) \<and> py_lower u = k}
   \<and> (qualifies df \<longleftrightarrow> 2 \<le> card {k \<in> set keyword_list. sublist k (py_lower (raw_text df))})
   \<and> distinct keyword_list \<and> length keyword_list = 9"
proof -
  have "score df = card ({k. sublist k (py_lower (raw_text df))} \<inter> set keyword_list)"
    unfolding score_def combined_text_lower py_in_sublist
    using distinct_keyword_list by (rule distinct_length_filter)
  also have "{k. sublist k (py_lower (raw_text df))} \<inter> set keyword_list
      = {k \<in> set keyword_list. sublist k (py_lower (raw_text df))}"
    by auto
  finally have one: "score df = card {k \<in> set keyword_list. sublist k (py_lower (raw_text df))}" .
  have two: "{k \<in> set keyword_list. sublist k (py_lower (raw_text df))}
      = {k \<in> set keyword_list. \<exists>u. sublist u (raw_text df) \<and> py_lower u = k}"
    by (simp add: py_lower_def sublist_map_iff)
  have nine: "length keyword_list = 9"
    by (simp add: keyword_list_def)
  from one two nine distinct_keyword_list show ?thesis
    by (simp add: qualifies_def)
qed

theorem score_counts_distinct_keywords_witness:
  "score page3 = 5
   \<and> card {k \<in> set keyword_list. sublist k (py_lower (raw_text page3))} = 5
   \<and> qualifies page3"
  using score_page3 score_counts_distinct_keywords [of page3] by simp

text \<open>
  C5 (as amended). Consolidation keeps one group. A table whose column count differs
  from that of the first table with a data row and a score of at least 2 is left out of
  it, whatever its own score: every table of the group has the same column count.
\<close>

theorem mismatched_table_left_out:
  "(find scored_candidate tables = Some first \<and> ncols df \<noteq> ncols first
      \<longrightarrow> df \<notin> set (cargo_tables tables))
   \<and> (\<forall>a \<in> set (cargo_tables tables). \<forall>b \<in> set (cargo_tables tables). ncols a = ncols b)"
proof (cases "find scored_candidate tables")
  case None
  then show ?thesis by (simp add: cargo_tables_filter)
next
  case (Some f)
  then show ?thesis by (auto simp: cargo_tables_filter)
qed

theorem mismatched_table_left_out_witness:
  "find scored_candidate [page1, page3] = Some page1 \<and> ncols page3 \<noteq> ncols page1
   \<and> page3 \<notin> set (cargo_tables [page1, page3])"
proof -
  have h: "find scored_candidate [page1, page3] = Some page1 \<and> ncols page3 \<noteq> ncols page1"
    by (simp add: example_candidates example_shapes)
  then show ?thesis
    using mismatched_table_left_out [of "[page1, page3]" page1 page3] by blast
qed

theorem second_signature_counterexample:
  "scored_candidate page1 \<and> scored_candidate page3
   \<and> ncols page1 = 8 \<and> ncols page3 = 9
   \<and> cargo_tables [page1, page3] = [page1]"
  by (simp add: cargo_tables_filter example_candidates example_shapes)

text \<open>
  C10. A table with a header and no data row is never in the group, whatever its header
  holds; it is skipped before the score is looked at, so the group is the same as if the
  table were not in the document.
\<close>

theorem header_only_table_skipped:
  "(rows df = [] \<longrightarrow> df \<notin> set (cargo_tables tables))
   \<and> cargo_tables (filter (\<lambda>d. rows d \<noteq> []) tables) = cargo_tables tables"
proof
  show "rows df = [] \<longrightarrow> df \<notin> set (cargo_tables tables)"
    using cargo_tables_subset [of df tables]
    by (auto simp: scored_candidate_def df_empty_def)
next
  have weaker: "scored_candidate d \<Longrightarrow> rows d \<noteq> []" for d
    by (simp add: scored_candidate_def df_empty_def)
  have f: "find scored_candidate (filter (\<lambda>d. rows d \<noteq> []) tables) = find scored_candidate tables"
    by (rule find_filter_weaker) (rule weaker)
  have g: "filter (\<lambda>d. scored_candidate d \<and> ncols d = n) (filter (\<lambda>d. rows d \<noteq> []) tables)
      = filter (\<lambda>d. scored_candidate d \<and> ncols d = n) tables" for n
    by (rule filter_filter_weaker) (simp add: weaker)
  have "cargo_tables (filter (\<lambda>d. rows d \<noteq> []) tables) =
      (case find scored_candidate (filter (\<lambda>d. rows d \<noteq> []) tables) of
         None \<Rightarrow> []
       | Some first \<Rightarrow> filter (\<lambda>d. scored_candidate d \<and> ncols d = ncols first)
                        (filter (\<lambda>d. rows d \<noteq> []) tables))"
    by (rule cargo_tables_filter)
  also have "\<dots> = (case find scored_candidate tables of
         None \<Rightarrow> []
       | Some first \<Rightarrow> filter (\<lambda>d. scored_candidate d \<and> ncols d = ncols first) tables)"
    by (simp only: f g)
  also have "\<dots> = cargo_tables tables"
    by (rule cargo_tables_filter [symmetric])
  finally show "cargo_tables (filter (\<lambda>d. rows d \<noteq> []) tables) = cargo_tables tables" .
qed

theorem header_only_table_skipped_witness:
  "rows header_only = [] \<and> score header_only = 9
   \<and> header_only \<notin> set (cargo_tables [header_only, page1])
   \<and> cargo_tables [header_only, page1] = [page1]"
proof -
  have h: "rows header_only = [] \<and> score header_only = 9"
    by (simp add: example_shapes score_header_only)
  have g: "cargo_tables [header_only, page1] = [page1]"
    by (simp add: cargo_tables_filter example_candidates example_shapes)
  show ?thesis
    using h g header_only_table_skipped [of header_only "[header_only, page1]"] by blast
qed

section \<open>Column mapping\<close>

text \<open>
  C3. A table of at least 8 columns gets the fixed mapping role 0, requirement 2, hours
  3, openings 4, salary 7; the headers are not looked at.
\<close>

theorem wide_layout_fixed_mapping:
  "8 \<le> ncols df \<Longrightarrow>
   col_mapping df = [Cargo \<mapsto> 0, Requisito \<mapsto> 2, Carga_horaria \<mapsto> 3, Vagas \<mapsto> 4, Salario \<mapsto> 7]"
  by (simp add: col_mapping_def ncols_def)

theorem wide_layout_fixed_mapping_witness:
  "8 \<le> ncols page1 \<and> col_mapping page1 Cargo = Some 0 \<and> col_mapping page1 Requisito = Some 2
   \<and> col_mapping page1 Carga_horaria = Some 3 \<and> col_mapping page1 Vagas = Some 4
   \<and> col_mapping page1 Salario = Some 7"
proof -
  have h: "8 \<le> ncols page1"
    by (simp add: ncols_def page1_def)
  show ?thesis
    using h wide_layout_fixed_mapping [OF h] by simp
qed


lemma assign_column_first_group:
  "assign_column m idx col = (case first_group (py_str col) of None \<Rightarrow> m | Some f \<Rightarrow> m(f \<mapsto> idx))"
  by (simp add: assign_column_def first_group_def keyword_groups_def Let_def)

lemma map_by_name_snoc:
  "map_by_name m idx (cols @ [c]) = assign_column (map_by_name m idx cols) (idx + length cols) c"
  by (induction cols arbitrary: m idx) simp_all

lemma map_by_name_last:
  "map_by_name m idx cols f =
     (case filter (\<lambda>j. first_group (py_str (cols ! j)) = Some f) [0..<length cols] of
        [] \<Rightarrow> m f
      | j # js \<Rightarrow> Some (idx + last (j # js)))"
proof (induction cols rule: rev_induct)
  case Nil
  show ?case by simp
next
  case (snoc c cols)
  let ?P = "\<lambda>xs j. first_group (py_str (xs ! j)) = Some f"
  have same: "filter (?P (cols @ [c])) [0..<length cols] = filter (?P cols) [0..<length cols]"
    by (rule filter_cong) (simp_all add: nth_append)
  have split: "filter (?P (cols @ [c])) [0..<length (cols @ [c])] =
      filter (?P cols) [0..<length cols] @ (if first_group (py_str c) = Some f then [length cols] else [])"
    by (simp add: same)
  show ?case
  proof (cases "first_group (py_str c) = Some f")
    case True
    then have "map_by_name m idx (cols @ [c]) f = Some (idx + length cols)"
      by (simp add: map_by_name_snoc assign_column_first_group)
    moreover have "filter (?P (cols @ [c])) [0..<length (cols @ [c])] =
        filter (?P cols) [0..<length cols] @ [length cols]"
      using True split by simp
    moreover have "(case xs @ [n] of [] \<Rightarrow> a | j # js \<Rightarrow> Some (idx + last (j # js))) = Some (idx + n)"
      for xs :: "nat list" and n a
      by (cases xs) simp_all
    ultimately show ?thesis
      by simp
  next
    case False
    then have "map_by_name m idx (cols @ [c]) f = map_by_name m idx cols f"
      by (auto simp: map_by_name_snoc assign_column_first_group split: option.splits)
    moreover have "filter (?P (cols @ [c])) [0..<length (cols @ [c])] =
        filter (?P cols) [0..<length cols]"
      using False split by simp
    ultimately show ?thesis
      using snoc.IH by simp
  qed
qed

lemma narrow_col_mapping:
  "ncols df < 5 \<Longrightarrow>
   col_mapping df f = (case assigned_columns f df of [] \<Rightarrow> None | j # js \<Rightarrow> Some (last (j # js)))"
  by (simp add: col_mapping_def ncols_def assigned_columns_def header_field_def map_by_name_last
        split: list.splits)

lemma first_group_priority:
  "first_group h = Some f \<longleftrightarrow>
     matches_group f h \<and> (\<forall>g. priority g < priority f \<longrightarrow> \<not> matches_group g h)"
proof -
  have all: "(\<forall>g. P g) \<longleftrightarrow> P Cargo \<and> P Requisito \<and> P Salario \<and> P Carga_horaria \<and> P Vagas"
    for P
    by (metis field.exhaust)
  show ?thesis
    unfolding all
    by (cases f) (auto simp: first_group_def matches_group_def keyword_groups_def)
qed

lemma assigned_columns_sorted: "sorted_wrt (<) (assigned_columns f df)"
  by (simp add: assigned_columns_def sorted_wrt_filter)

text \<open>
  C4 (as amended). In a table of fewer than 5 columns every column is given to at most one
  field: the first group, in the order role, requirement, salary, hours, openings, one of
  whose keywords occurs in its lower-case header. A field is mapped to the last column
  given to it. So when two columns are given to the salary field, that is, each holds a
  salary keyword and no role or requirement keyword, the salary index is the later one.
\<close>

theorem narrow_layout_assignment:
  "ncols df < 5 \<longrightarrow>
     (\<forall>f. col_mapping df f =
            (case assigned_columns f df of [] \<Rightarrow> None | j # js \<Rightarrow> Some (last (j # js))))
     \<and> (\<forall>f g i. col_mapping df f = Some i \<and> col_mapping df g = Some i \<longrightarrow> f = g)
     \<and> (\<forall>i f. header_field df i = Some f \<longleftrightarrow>
            matches_group f (py_str (columns df ! i))
            \<and> (\<forall>g. priority g < priority f \<longrightarrow> \<not> matches_group g (py_str (columns df ! i))))
     \<and> (\<forall>i j. assigned_columns Salario df = [i, j] \<longrightarrow>
            i < j \<and> col_mapping df Salario = Some j)"
proof (intro impI conjI allI)
  assume n: "ncols df < 5"
  show "col_mapping df f =
            (case assigned_columns f df of [] \<Rightarrow> None | j # js \<Rightarrow> Some (last (j # js)))" for f
    using n by (rule narrow_col_mapping)
  show "header_field df i = Some f \<longleftrightarrow>
            matches_group f (py_str (columns df ! i))
            \<and> (\<forall>g. priority g < priority f \<longrightarrow> \<not> matches_group g (py_str (columns df ! i)))" for i f
    unfolding header_field_def by (rule first_group_priority)
  show "f = g" if a: "col_mapping df f = Some i \<and> col_mapping df g = Some i" for f g i
  proof -
    have at: "header_field df i = Some h" if "col_mapping df h = Some i" for h
    proof -
      from that obtain j js where js: "assigned_columns h df = j # js" "i = last (j # js)"
        using narrow_col_mapping [OF n, of h] by (auto split: list.splits)
      then have "i \<in> set (assigned_columns h df)"
        by (metis last_in_set list.distinct(1))
      then show ?thesis
        by (simp add: assigned_columns_def)
    qed
    from a at [of f] at [of g] show ?thesis by simp
  qed
  show "i < j" if "assigned_columns Salario df = [i, j]" for i j
    using that assigned_columns_sorted [of Salario df] by simp
  show "col_mapping df Salario = Some j" if "assigned_columns Salario df = [i, j]" for i j
    using that narrow_col_mapping [OF n, of Salario] by simp
qed

theorem narrow_layout_assignment_witness:
  "ncols salary_twice < 5 \<and> assigned_columns Salario salary_twice = [1, 2]
   \<and> col_mapping salary_twice Salario = Some 2 \<and> col_mapping salary_twice Cargo = Some 0"
proof -
  have h: "ncols salary_twice < 5"
    by (simp add: ncols_def salary_twice_def)
  have a: "assigned_columns Salario salary_twice = [1, 2]"
    by code_simp
  have c: "assigned_columns Cargo salary_twice = [0]"
    by code_simp
  show ?thesis
    using h a c narrow_layout_assignment [of salary_twice] by simp
qed

theorem salary_and_role_header_counterexample:
  "ncols two_salaries < 5
   \<and> matches_group Salario (py_str (columns two_salaries ! 0))
   \<and> matches_group Salario (py_str (columns two_salaries ! 1))
   \<and> col_mapping two_salaries Salario = Some 0
   \<and> col_mapping two_salaries Cargo = Some 1"
  by code_simp

section \<open>Rows\<close>

lemma parse_rows_fst:
  "fst (parse_rows m cid idx rs (cargos, lg)) = cargos @ concat (map (row_records m cid) rs)"
  by (induction rs arbitrary: idx cargos lg) (auto simp: row_records_def Let_def split: option.splits)

lemma read_field_None_iff:
  "read_field m f row = None \<longleftrightarrow> (\<exists>k. m f = Some k \<and> length row \<le> k)"
  by (auto simp: read_field_def iloc_def split: option.splits)

lemma fill_info_None_iff:
  "fill_info m cid row = None \<longleftrightarrow> (\<exists>f k. m f = Some k \<and> length row \<le> k)"
proof
  assume "fill_info m cid row = None"
  then obtain f where "read_field m f row = None"
    by (auto simp: fill_info_def split: option.splits)
  then show "\<exists>f k. m f = Some k \<and> length row \<le> k"
    unfolding read_field_None_iff by blast
next
  assume "\<exists>f k. m f = Some k \<and> length row \<le> k"
  then obtain f where "read_field m f row = None"
    unfolding read_field_None_iff by blast
  then show "fill_info m cid row = None"
    by (cases f) (auto simp: fill_info_def split: option.splits)
qed

lemma row_records_no_columns:
  "row_records Map.empty cid row = []"
  by (simp add: row_records_def fill_info_def read_field_def clean_info_def clean_value_def keep_info_def)

lemma parse_cargos_records:
  "fst (parse_cargos (Some df) cid) = concat (map (row_records (col_mapping df) cid) (rows df))"
proof (cases "df_empty df")
  case False
  then show ?thesis
    by (simp add: parse_cargos_def Let_def case_prod_unfold parse_rows_fst)
next
  case True
  show ?thesis
  proof (cases "columns df = []")
    case True
    then have "col_mapping df = Map.empty"
      by (simp add: col_mapping_def)
    then show ?thesis
      using \<open>df_empty df\<close> by (simp add: parse_cargos_def row_records_no_columns)
  next
    case False
    with \<open>df_empty df\<close> have "rows df = []" by (simp add: df_empty_def)
    then show ?thesis
      using \<open>df_empty df\<close> by (simp add: parse_cargos_def)
  qed
qed

lemma parse_rows_warning:
  "(WARNING, Erro_linha i) \<in> set (snd (parse_rows m cid idx rs (cargos, lg))) \<longleftrightarrow>
     (WARNING, Erro_linha i) \<in> set lg \<or>
     (idx \<le> i \<and> i < idx + length rs \<and> fill_info m cid (rs ! (i - idx)) = None)"
proof (induction rs arbitrary: idx cargos lg)
  case Nil
  show ?case by auto
next
  case (Cons row rest)
  have shift: "idx \<le> i \<and> i < idx + length (row # rest) \<and> fill_info m cid ((row # rest) ! (i - idx)) = None
     \<longleftrightarrow> (i = idx \<and> fill_info m cid row = None) \<or>
         (Suc idx \<le> i \<and> i < Suc idx + length rest \<and> fill_info m cid (rest ! (i - Suc idx)) = None)"
    by (cases "i = idx") (auto simp: nth_Cons' Suc_diff_le)
  show ?case
    unfolding shift
    by (cases "fill_info m cid row") (auto simp: Cons.IH Let_def)
qed

lemma parse_cargos_warning:
  "\<not> df_empty df \<Longrightarrow>
   (WARNING, Erro_linha i) \<in> set (snd (parse_cargos (Some df) cid)) \<longleftrightarrow>
     (i < length (rows df) \<and> fill_info (col_mapping df) cid (rows df ! i) = None)"
  by (simp add: parse_cargos_def Let_def case_prod_unfold parse_rows_warning)

lemma assign_column_range:
  "assign_column m idx col f = Some k \<Longrightarrow> m f = Some k \<or> k = idx"
  by (auto simp: assign_column_def Let_def split: if_splits)

lemma map_by_name_range:
  "map_by_name m idx cols f = Some k \<Longrightarrow> m f = Some k \<or> (idx \<le> k \<and> k < idx + length cols)"
proof (induction cols arbitrary: m idx)
  case Nil
  then show ?case by simp
next
  case (Cons col cols)
  from Cons.prems have "map_by_name (assign_column m idx col) (Suc idx) cols f = Some k"
    by simp
  from Cons.IH [OF this] show ?case
    using assign_column_range [of m idx col f k] by auto
qed

lemma col_mapping_in_range:
  "col_mapping df f = Some k \<Longrightarrow> k < ncols df"
proof -
  assume a: "col_mapping df f = Some k"
  consider "8 \<le> ncols df" | "5 \<le> ncols df" "ncols df < 8" | "ncols df < 5" by linarith
  then show ?thesis
  proof cases
    case 1
    with a show ?thesis
      by (cases f) (auto simp: col_mapping_def ncols_def)
  next
    case 2
    with a show ?thesis
      by (cases f) (auto simp: col_mapping_def ncols_def)
  next
    case 3
    with a have "map_by_name Map.empty 0 (columns df) f = Some k"
      by (simp add: col_mapping_def ncols_def)
    from map_by_name_range [OF this] show ?thesis
      by (simp add: ncols_def)
  qed
qed

lemma rectangular_never_fails:
  "rectangular df \<Longrightarrow> row \<in> set (rows df) \<Longrightarrow> fill_info (col_mapping df) cid row \<noteq> None"
  unfolding fill_info_None_iff rectangular_def list_all_iff
  using col_mapping_in_range [of df] by fastforce


lemma row_records_unreadable:
  "m f = Some k \<Longrightarrow> length row \<le> k \<Longrightarrow> row_records m cid row = []"
proof -
  assume "m f = Some k" "length row \<le> k"
  then have "fill_info m cid row = None"
    unfolding fill_info_None_iff by blast
  then show ?thesis by (simp add: row_records_def)
qed


text \<open>
  C6. A row whose cells were read becomes a record iff, after the placeholders are
  cleared, the role is not empty and longer than 3 characters and the salary is not empty
  and none of "nan", "None", "-". Any other row is dropped, and no warning is logged for
  it. The records of a frame are the records of its rows, in order.
\<close>

theorem row_inclusion_predicate:
  "fst (parse_cargos (Some df) cid) = concat (map (row_records (col_mapping df) cid) (rows df))
   \<and> (\<forall>m row filled. fill_info m cid row = Some filled \<longrightarrow>
         row_records m cid row =
           (let info = clean_info filled
            in if cargo info \<noteq> [] \<and> 3 < length (cargo info) \<and> salario info \<noteq> []
                  \<and> salario info \<noteq> ''nan'' \<and> salario info \<noteq> ''None'' \<and> salario info \<noteq> ''-''
               then [info] else []))
   \<and> (\<forall>m row filled. fill_info m cid row = Some filled \<and> cargo filled = agente
         \<and> salario filled = ''3.036,00'' \<longrightarrow> row_records m cid row = [clean_info filled])
   \<and> (\<forall>m row filled. fill_info m cid row = Some filled \<and> cargo filled = ''X''
         \<longrightarrow> row_records m cid row = [])
   \<and> (\<forall>m row filled. fill_info m cid row = Some filled \<and> salario filled = ''-''
         \<longrightarrow> row_records m cid row = [])
   \<and> (\<forall>i. (WARNING, Erro_linha i) \<in> set (snd (parse_cargos (Some df) cid))
         \<longrightarrow> fill_info (col_mapping df) cid (rows df ! i) = None)"
proof (intro conjI allI impI)
  show "fst (parse_cargos (Some df) cid) = concat (map (row_records (col_mapping df) cid) (rows df))"
    by (rule parse_cargos_records)
next
  fix i
  assume w: "(WARNING, Erro_linha i) \<in> set (snd (parse_cargos (Some df) cid))"
  then have "\<not> df_empty df"
    by (auto simp: parse_cargos_def)
  from w show "fill_info (col_mapping df) cid (rows df ! i) = None"
    unfolding parse_cargos_warning [OF \<open>\<not> df_empty df\<close>] by simp
next
  fix m row filled
  assume "fill_info m cid row = Some filled"
  then show "row_records m cid row =
           (let info = clean_info filled
            in if cargo info \<noteq> [] \<and> 3 < length (cargo info) \<and> salario info \<noteq> []
                  \<and> salario info \<noteq> ''nan'' \<and> salario info \<noteq> ''None'' \<and> salario info \<noteq> ''-''
               then [info] else [])"
    by (simp add: row_records_def keep_info_def Let_def)
next
  fix m row filled
  assume "fill_info m cid row = Some filled \<and> cargo filled = agente \<and> salario filled = ''3.036,00''"
  then show "row_records m cid row = [clean_info filled]"
    by (simp add: row_records_def keep_info_def clean_info_def clean_value_def agente_def)
next
  fix m row filled
  assume "fill_info m cid row = Some filled \<and> cargo filled = ''X''"
  then show "row_records m cid row = []"
    by (simp add: row_records_def keep_info_def clean_info_def clean_value_def)
next
  fix m row filled
  assume "fill_info m cid row = Some filled \<and> salario filled = ''-''"
  then show "row_records m cid row = []"
    by (simp add: row_records_def keep_info_def clean_info_def clean_value_def)
qed

lemma roles_mapping:
  "col_mapping roles = [Cargo \<mapsto> 0, Requisito \<mapsto> 1, Carga_horaria \<mapsto> 2, Vagas \<mapsto> 3, Salario \<mapsto> 4]"
  by (simp add: col_mapping_def roles_def)

lemma roles_row0:
  "fill_info (col_mapping roles) ''Sossego/PB'' (rows roles ! 0) =
     Some \<lparr>cidade = ''Sossego/PB'', cargo = agente, requisito = ''null'', salario = ''3.036,00'',
           carga_horaria = ''40h'', vagas = ''03''\<rparr>"
  unfolding roles_mapping by code_simp

lemma roles_row1:
  "fill_info (col_mapping roles) ''Sossego/PB'' (rows roles ! 1) =
     Some \<lparr>cidade = ''Sossego/PB'', cargo = ''X'', requisito = ''Medio'', salario = ''1.518,00'',
           carga_horaria = ''40h'', vagas = ''01''\<rparr>"
  unfolding roles_mapping by code_simp

lemma roles_row2:
  "fill_info (col_mapping roles) ''Sossego/PB'' (rows roles ! 2) =
     Some \<lparr>cidade = ''Sossego/PB'', cargo = ''Motorista'', requisito = ''Medio'', salario = ''-'',
           carga_horaria = ''40h'', vagas = ''01''\<rparr>"
  unfolding roles_mapping by code_simp

theorem row_inclusion_predicate_witness:
  "row_records (col_mapping roles) ''Sossego/PB'' (rows roles ! 0) =
     [\<lparr>cidade = ''Sossego/PB'', cargo = agente, requisito = [], salario = ''3.036,00'',
       carga_horaria = ''40h'', vagas = ''03''\<rparr>]
   \<and> row_records (col_mapping roles) ''Sossego/PB'' (rows roles ! 1) = []
   \<and> row_records (col_mapping roles) ''Sossego/PB'' (rows roles ! 2) = []"
proof -
  have c: "clean_info \<lparr>cidade = ''Sossego/PB'', cargo = agente, requisito = ''null'',
             salario = ''3.036,00'', carga_horaria = ''40h'', vagas = ''03''\<rparr>
         = \<lparr>cidade = ''Sossego/PB'', cargo = agente, requisito = [], salario = ''3.036,00'',
             carga_horaria = ''40h'', vagas = ''03''\<rparr>"
    by (simp add: clean_info_def clean_value_def agente_def)
  show ?thesis
    using row_inclusion_predicate [of roles "''Sossego/PB''"] roles_row0 roles_row1 roles_row2 c
    by (metis cargo_info.select_convs(2,4))
qed

lemma row_records_member:
  "r \<in> set (row_records m cid row) \<longleftrightarrow>
     (\<exists>filled. fill_info m cid row = Some filled \<and> r = clean_info filled \<and> keep_info r)"
  by (cases "fill_info m cid row") (auto simp: row_records_def)

lemma fill_info_salario:
  "fill_info m cid row = Some filled \<Longrightarrow> m Salario = Some k \<Longrightarrow> k < length row \<Longrightarrow>
   salario filled = py_strip (py_str (row ! k))"
  by (auto simp: fill_info_def read_field_def iloc_def split: option.splits)

text \<open>
  C7. Every value of a row that equals "nan", "None" or "null", letter for letter, is
  replaced by the empty string, and the condition for keeping the row is evaluated on the
  replaced values. A row whose salary cell reads "None" therefore gives no record.
\<close>

theorem placeholders_cleared_before_inclusion:
  "(\<forall>r \<in> set (fst (parse_cargos (Some df) cid)).
      \<exists>row \<in> set (rows df). \<exists>filled.
        fill_info (col_mapping df) cid row = Some filled \<and> keep_info r \<and>
        r = \<lparr>cidade = clean_value (cidade filled), cargo = clean_value (cargo filled),
             requisito = clean_value (requisito filled), salario = clean_value (salario filled),
             carga_horaria = clean_value (carga_horaria filled),
             vagas = clean_value (vagas filled)\<rparr>)
   \<and> (\<forall>v. clean_value v = (if v = ''nan'' \<or> v = ''None'' \<or> v = ''null'' then [] else v))
   \<and> fst (parse_cargos (Some df) cid) = concat (map (row_records (col_mapping df) cid) (rows df))
   \<and> (\<forall>m row k. m Salario = Some k \<and> k < length row
         \<and> py_strip (py_str (row ! k)) \<in> {''nan'', ''None'', ''null''}
         \<longrightarrow> row_records m cid row = [])"
proof (intro conjI ballI allI impI)
  fix r
  assume "r \<in> set (fst (parse_cargos (Some df) cid))"
  then obtain row where row: "row \<in> set (rows df)" "r \<in> set (row_records (col_mapping df) cid row)"
    by (auto simp: parse_cargos_records)
  then obtain filled where
    "fill_info (col_mapping df) cid row = Some filled" "r = clean_info filled" "keep_info r"
    unfolding row_records_member by blast
  with row(1) show "\<exists>row \<in> set (rows df). \<exists>filled.
        fill_info (col_mapping df) cid row = Some filled \<and> keep_info r \<and>
        r = \<lparr>cidade = clean_value (cidade filled), cargo = clean_value (cargo filled),
             requisito = clean_value (requisito filled), salario = clean_value (salario filled),
             carga_horaria = clean_value (carga_horaria filled),
             vagas = clean_value (vagas filled)\<rparr>"
    unfolding clean_info_def by blast
next
  fix v
  show "clean_value v = (if v = ''nan'' \<or> v = ''None'' \<or> v = ''null'' then [] else v)"
    by (simp add: clean_value_def)
next
  show "fst (parse_cargos (Some df) cid) = concat (map (row_records (col_mapping df) cid) (rows df))"
    by (rule parse_cargos_records)
next
  fix m row k
  assume a: "m Salario = Some k \<and> k < length row
         \<and> py_strip (py_str (row ! k)) \<in> {''nan'', ''None'', ''null''}"
  show "row_records m cid row = []"
  proof (cases "fill_info m cid row")
    case None
    then show ?thesis by (simp add: row_records_def)
  next
    case (Some filled)
    with a have "salario filled \<in> {''nan'', ''None'', ''null''}"
      using fill_info_salario [of m cid row filled k] by simp
    then have "salario (clean_info filled) = []"
      by (auto simp: clean_info_def clean_value_def)
    then show ?thesis
      using Some by (simp add: row_records_def keep_info_def)
  qed
qed

lemma roles_row3_salario:
  "py_strip (py_str (rows roles ! 3 ! 4)) = ''None''"
  by code_simp

theorem placeholders_cleared_before_inclusion_witness:
  "col_mapping roles Salario = Some 4 \<and> 4 < length (rows roles ! 3)
   \<and> rows roles ! 3 ! 4 = CStr ''None''
   \<and> row_records (col_mapping roles) ''Sossego/PB'' (rows roles ! 3) = []
   \<and> clean_value ''None'' = [] \<and> clean_value ''NONE'' = ''NONE''"
proof -
  have h: "col_mapping roles Salario = Some 4 \<and> 4 < length (rows roles ! 3)
       \<and> rows roles ! 3 ! 4 = CStr ''None''"
    by (simp add: roles_mapping) (simp add: roles_def)
  have p: "py_strip (py_str (rows roles ! 3 ! 4)) \<in> {''nan'', ''None'', ''null''}"
    by (simp add: roles_row3_salario)
  show ?thesis
    using h p placeholders_cleared_before_inclusion [of roles "''Sossego/PB''"]
    by (simp add: clean_value_def)
qed



section \<open>Openings\<close>


























end
